theory Spec2Isabelle
  imports Complex_Main
begin

section \<open>The coordinates table\<close>

text \<open>
  The loader (\<^verbatim>\<open>src/src/postalcode_loader.py\<close>) reads the file
  \<^verbatim>\<open>data/<country>_postal_codes_and_coordinates.csv\<close> with pandas. One line of that
  file is a record with the columns \<^verbatim>\<open>PostalCode\<close>, \<^verbatim>\<open>City\<close>, \<^verbatim>\<open>Latitude\<close> and
  \<^verbatim>\<open>Longitude\<close>. A coordinate that is missing in the file is read as NaN; it is
  \<open>None\<close> here, and a coordinate that is present is a real number. The record is
  polymorphic in the type of its coordinates: \<open>real option\<close> as read from the file,
  \<open>real\<close> once \<^verbatim>\<open>dropna\<close> has removed the incomplete rows.

  Floating-point numbers are modelled by the reals they denote: comparisons are exact, and
  the arithmetic of the bounding box is the arithmetic of the reals. The one place where
  Python's division can raise is written out (\<open>ZeroDivisionError\<close>).
\<close>

record 'c PostalCodeRecord =
  PostalCode :: string
  City :: string
  Latitude :: 'c
  Longitude :: 'c

text \<open>
  A data frame is the list of its rows, each with its index label. \<^verbatim>\<open>read_csv\<close> labels
  the rows \<open>0, 1, 2, ...\<close>; filtering keeps the labels. A series of postal codes is the
  list of its labelled values.
\<close>

type_synonym 'c dataframe = "(nat \<times> 'c PostalCodeRecord) list"

type_synonym series = "(nat \<times> string) list"

text \<open>
  Both operations either return a series, or print a message and return \<^verbatim>\<open>None\<close>
  (\<open>NoResult\<close> with the message printed), or raise (\<open>Raised\<close>).
  \<^item> \<open>FileMissing\<close>: "The file ... does not exists. Get coordinates for postal codes"
  \<^item> \<open>MissingReference\<close>: "No reference place was provided"
  \<^item> \<open>ReferenceNotFound\<close>: "Reference place not found"
\<close>

datatype diagnostic = FileMissing | MissingReference | ReferenceNotFound

datatype exception = KeyError "nat list" | ZeroDivisionError | IndexError

datatype failure = NoResult diagnostic | Raised exception

section \<open>The pandas and math operations the loader uses\<close>

definition read_csv :: "'c PostalCodeRecord list \<Rightarrow> 'c dataframe" where
  "read_csv rows = enumerate 0 rows"

text \<open>\<^verbatim>\<open>df.dropna(subset=["Longitude", 'Latitude'], axis=0, how='any', inplace=True)\<close>\<close>

definition dropna :: "real option dataframe \<Rightarrow> real dataframe" where
  "dropna df =
     List.map_filter
       (\<lambda>(i, r). case Longitude r of
            None \<Rightarrow> None
          | Some lo \<Rightarrow>
              (case Latitude r of
                 None \<Rightarrow> None
               | Some la \<Rightarrow>
                   Some (i, \<lparr>PostalCode = PostalCode r, City = City r,
                             Latitude = la, Longitude = lo\<rparr>)))
       df"

text \<open>
  \<^verbatim>\<open>series.drop(labels, inplace=True)\<close>: raises \<^verbatim>\<open>KeyError\<close> with the labels that are
  not in the index of the series when there is one, and removes the labelled entries
  otherwise.
\<close>

definition series_drop :: "nat list \<Rightarrow> series \<Rightarrow> failure + series" where
  "series_drop labels s =
     (let missing = filter (\<lambda>l. l \<notin> set (map fst s)) labels
      in if missing = [] then Inr (filter (\<lambda>(i, v). i \<notin> set labels) s)
         else Inl (Raised (KeyError missing)))"

text \<open>\<^verbatim>\<open>math.radians\<close>\<close>

definition radians :: "real \<Rightarrow> real" where
  "radians x = x * pi / 180"

section \<open>Bounding-box search\<close>

text \<open>Lines 49--55: the rows of the reference postal code, when one is given.\<close>

definition reference_row_by_bounding ::
  "real dataframe \<Rightarrow> string option \<Rightarrow> failure + real dataframe" where
  "reference_row_by_bounding postal_codes_df reference_postal_code =
     (case reference_postal_code of
        Some pc \<Rightarrow> Inr (filter (\<lambda>(i, r). PostalCode r = pc) postal_codes_df)
      | None \<Rightarrow> Inl (NoResult MissingReference))"

text \<open>
  Lines 65--70: the box \<open>(lat_min, lon_min, lat_max, lon_max)\<close>. Python evaluates
  the tuple from left to right; the only operation that can raise is the division by
  \<open>111.32 * cos (radians lat0)\<close>.
\<close>

definition bounding_box :: "real \<times> real \<Rightarrow> real \<Rightarrow> failure + real \<times> real \<times> real \<times> real" where
  "bounding_box reference_coordinates radius_km =
     (if 111.32 * cos (radians (fst reference_coordinates)) = 0
      then Inl (Raised ZeroDivisionError)
      else Inr
        (fst reference_coordinates - radius_km / 110.574,
         snd reference_coordinates
           - radius_km / (111.32 * cos (radians (fst reference_coordinates))),
         fst reference_coordinates + radius_km / 110.574,
         snd reference_coordinates
           + radius_km / (111.32 * cos (radians (fst reference_coordinates)))))"

text \<open>
  Lines 63--76: the coordinates of the first reference row, the box around them, and the
  postal codes of the rows inside the box.
\<close>

definition nearby_in_bounding_box ::
  "real dataframe \<Rightarrow> real dataframe \<Rightarrow> real \<Rightarrow> failure + series" where
  "nearby_in_bounding_box postal_codes_df reference_row radius_km =
     (case reference_row of
        [] \<Rightarrow> Inl (Raised IndexError)
      | (i0, r0) # _ \<Rightarrow>
          (case bounding_box (Latitude r0, Longitude r0) radius_km of
             Inl e \<Rightarrow> Inl e
           | Inr (b0, b1, b2, b3) \<Rightarrow>
               Inr (map (\<lambda>(i, r). (i, PostalCode r))
                     (filter
                        (\<lambda>(i, r). b0 \<le> Latitude r \<and> Latitude r \<le> b2 \<and>
                                  b1 \<le> Longitude r \<and> Longitude r \<le> b3)
                        postal_codes_df))))"

text \<open>
  \<^verbatim>\<open>find_nearby_postal_codes_by_bounding\<close>. The file is \<open>None\<close> when it does not
  exist, and the list of its records otherwise.
\<close>

definition find_nearby_postal_codes_by_bounding ::
  "real option PostalCodeRecord list option \<Rightarrow> string option \<Rightarrow> real \<Rightarrow> failure + series" where
  "find_nearby_postal_codes_by_bounding coordinates_file reference_postal_code radius_km =
     (case coordinates_file of
        None \<Rightarrow> Inl (NoResult FileMissing)
      | Some rows \<Rightarrow>
          (let postal_codes_df = dropna (read_csv rows) in
           case reference_row_by_bounding postal_codes_df reference_postal_code of
             Inl e \<Rightarrow> Inl e
           | Inr reference_row \<Rightarrow>
               if reference_row = [] then Inl (NoResult ReferenceNotFound)
               else
                 (case nearby_in_bounding_box postal_codes_df reference_row radius_km of
                    Inl e \<Rightarrow> Inl e
                  | Inr nearby_postal_codes \<Rightarrow>
                      series_drop (map fst reference_row) nearby_postal_codes)))"

section \<open>Exact-distance search\<close>

text \<open>
  \<^verbatim>\<open>geodesic(p, q).kilometers\<close> is geopy's; the loader only calls it. It is a parameter
  \<open>geodesic\<close> of the model: a function from two points \<open>(latitude, longitude)\<close> to
  kilometres. Nothing is assumed about it; where a statement needs that the distance of a
  point to itself is \<open>0\<close>, it says so.
\<close>

type_synonym geodesic_km = "real \<times> real \<Rightarrow> real \<times> real \<Rightarrow> real"

text \<open>\<^verbatim>\<open>_calculate_distance\<close>\<close>

definition calculate_distance ::
  "geodesic_km \<Rightarrow> real PostalCodeRecord \<Rightarrow> real \<Rightarrow> real \<Rightarrow> real" where
  "calculate_distance geodesic row reference_latitude reference_longitude =
     (let point = (Latitude row, Longitude row);
          reference_point = (reference_latitude, reference_longitude)
      in geodesic point reference_point)"

text \<open>Lines 134--142: the postal code is tried first, the city only without one.\<close>

definition reference_row_by_distance ::
  "real dataframe \<Rightarrow> string option \<Rightarrow> string option \<Rightarrow> failure + real dataframe" where
  "reference_row_by_distance postal_codes_df reference_postal_code reference_city =
     (case reference_postal_code of
        Some pc \<Rightarrow> Inr (filter (\<lambda>(i, r). PostalCode r = pc) postal_codes_df)
      | None \<Rightarrow>
          (case reference_city of
             Some c \<Rightarrow> Inr (filter (\<lambda>(i, r). City r = c) postal_codes_df)
           | None \<Rightarrow> Inl (NoResult MissingReference)))"

text \<open>
  Lines 150--156: the coordinates of the first reference row, the \<^verbatim>\<open>Distance\<close> column,
  and the postal codes of the rows whose distance is strictly between \<open>0\<close> and the
  radius.
\<close>

definition nearby_within_distance ::
  "geodesic_km \<Rightarrow> real dataframe \<Rightarrow> real dataframe \<Rightarrow> real \<Rightarrow> failure + series" where
  "nearby_within_distance geodesic postal_codes_df reference_row radius_km =
     (case reference_row of
        [] \<Rightarrow> Inl (Raised IndexError)
      | (i0, r0) # _ \<Rightarrow>
          (let with_distance =
                 map (\<lambda>(i, r). (i, r, calculate_distance geodesic r (Latitude r0) (Longitude r0)))
                   postal_codes_df
           in Inr (map (\<lambda>(i, r, d). (i, PostalCode r))
                    (filter (\<lambda>(i, r, d). d > 0 \<and> d < radius_km) with_distance))))"

text \<open>\<^verbatim>\<open>find_nearby_postal_codes_by_distance\<close>\<close>

definition find_nearby_postal_codes_by_distance ::
  "geodesic_km \<Rightarrow> real option PostalCodeRecord list option \<Rightarrow> string option \<Rightarrow> string option
     \<Rightarrow> real \<Rightarrow> failure + series" where
  "find_nearby_postal_codes_by_distance geodesic coordinates_file reference_postal_code
       reference_city radius_km =
     (case coordinates_file of
        None \<Rightarrow> Inl (NoResult FileMissing)
      | Some rows \<Rightarrow>
          (let postal_codes_df = dropna (read_csv rows) in
           case reference_row_by_distance postal_codes_df reference_postal_code reference_city of
             Inl e \<Rightarrow> Inl e
           | Inr reference_row \<Rightarrow>
               if reference_row = [] then Inl (NoResult ReferenceNotFound)
               else nearby_within_distance geodesic postal_codes_df reference_row radius_km))"

section \<open>Concrete tables\<close>

text \<open>
  The examples are tables of points on the equator. Between two such points the geodesic
  is the arc of the equator between their meridians; \<open>equator_km\<close> is its length at
  \<open>111.32\<close> km per degree of longitude, the loader's own figure, and stands for
  \<open>geodesic\<close> in the examples.
\<close>

definition equator_km :: geodesic_km where
  "equator_km p q = 111.32 * \<bar>snd p - snd q\<bar>"

definition row :: "string \<Rightarrow> string \<Rightarrow> real option \<Rightarrow> real option \<Rightarrow> real option PostalCodeRecord" where
  "row pc c la lo = \<lparr>PostalCode = pc, City = c, Latitude = la, Longitude = lo\<rparr>"

definition equator_table :: "real option PostalCodeRecord list" where
  "equator_table =
     [row ''10115'' ''Alpha'' (Some 0) (Some 0),
      row ''10117'' ''Alpha'' (Some 0) (Some 0),
      row ''20095'' ''Beta'' (Some 0) (Some 0.25),
      row ''80331'' ''Gamma'' (Some 0) (Some 0.5),
      row ''50667'' ''Delta'' None (Some 0.1),
      row ''10115'' ''Epsilon'' (Some 0) (Some 0.125)]"

definition box_table :: "real option PostalCodeRecord list" where
  "box_table =
     [row ''10115'' ''Alpha'' (Some 0) (Some 0),
      row ''10117'' ''Alpha'' (Some 0) (Some 0),
      row ''20095'' ''Beta'' (Some 1) (Some 0.5),
      row ''80331'' ''Gamma'' (Some 1.5) (Some 0),
      row ''50667'' ''Delta'' (Some 0.5) None,
      row ''10115'' ''Epsilon'' (Some 0.5) (Some 0.5)]"

definition ungeocoded_table :: "real option PostalCodeRecord list" where
  "ungeocoded_table =
     [row ''10115'' ''Alpha'' None None,
      row ''20095'' ''Beta'' (Some 0) None,
      row ''80331'' ''Gamma'' None (Some 0.5)]"

definition far_duplicate_table :: "real option PostalCodeRecord list" where
  "far_duplicate_table =
     [row ''10115'' ''Alpha'' (Some 0) (Some 0),
      row ''10115'' ''Epsilon'' (Some 10) (Some 10)]"

lemmas model_defs =
  find_nearby_postal_codes_by_bounding_def find_nearby_postal_codes_by_distance_def
  reference_row_by_bounding_def reference_row_by_distance_def nearby_in_bounding_box_def
  nearby_within_distance_def bounding_box_def series_drop_def dropna_def read_csv_def
  radians_def calculate_distance_def equator_km_def row_def equator_table_def box_table_def
  ungeocoded_table_def far_duplicate_table_def Let_def

section \<open>Facts about the table operations\<close>

lemma in_set_map_filter:
  "y \<in> set (List.map_filter f xs) \<longleftrightarrow> (\<exists>x. x \<in> set xs \<and> f x = Some y)"
  by (induction xs) (auto split: option.splits)

lemma in_dropna:
  "(i, r) \<in> set (dropna df) \<longleftrightarrow>
     (\<exists>q la lo. (i, q) \<in> set df \<and> Latitude q = Some la \<and> Longitude q = Some lo \<and>
        r = \<lparr>PostalCode = PostalCode q, City = City q, Latitude = la, Longitude = lo\<rparr>)"
  unfolding dropna_def in_set_map_filter
  by (fastforce split: option.splits)

lemma in_read_csv: "(i, q) \<in> set (read_csv rows) \<longleftrightarrow> i < length rows \<and> q = rows ! i"
  unfolding read_csv_def by (auto simp: in_set_enumerate_eq)

text \<open>A row survives \<open>dropna\<close> exactly when both its coordinates are present.\<close>

lemma in_dropna_read_csv:
  "(i, r) \<in> set (dropna (read_csv rows)) \<longleftrightarrow>
     i < length rows \<and>
     (\<exists>la lo. Latitude (rows ! i) = Some la \<and> Longitude (rows ! i) = Some lo \<and>
        r = \<lparr>PostalCode = PostalCode (rows ! i), City = City (rows ! i),
              Latitude = la, Longitude = lo\<rparr>)"
  unfolding in_dropna in_read_csv by auto

text \<open>Index labels are unique: a label names one row.\<close>

lemma dropna_read_csv_label_unique:
  assumes "(i, r) \<in> set (dropna (read_csv rows))" and "(i, r') \<in> set (dropna (read_csv rows))"
  shows "r = r'"
  using assms unfolding in_dropna_read_csv by auto

lemma set_nearby_within_distance:
  "nearby_within_distance geodesic df ((i0, r0) # rest) radius_km = Inr res \<Longrightarrow>
   set res = {(i, PostalCode r) | i r. (i, r) \<in> set df \<and>
                0 < geodesic (Latitude r, Longitude r) (Latitude r0, Longitude r0) \<and>
                geodesic (Latitude r, Longitude r) (Latitude r0, Longitude r0) < radius_km}"
  unfolding nearby_within_distance_def calculate_distance_def Let_def
  by (fastforce simp: filter_map comp_def case_prod_beta image_iff)

lemma set_nearby_in_bounding_box:
  "nearby_in_bounding_box df ((i0, r0) # rest) radius_km = Inr sel \<Longrightarrow>
   set sel = {(i, PostalCode r) | i r. (i, r) \<in> set df \<and>
       Latitude r0 - radius_km / 110.574 \<le> Latitude r \<and>
       Latitude r \<le> Latitude r0 + radius_km / 110.574 \<and>
       Longitude r0 - radius_km / (111.32 * cos (Latitude r0 * pi / 180)) \<le> Longitude r \<and>
       Longitude r \<le> Longitude r0 + radius_km / (111.32 * cos (Latitude r0 * pi / 180))}"
  unfolding nearby_in_bounding_box_def bounding_box_def radians_def
  by (fastforce simp: image_iff split: if_splits)

lemma distance_returns:
  assumes "reference_row_by_distance (dropna (read_csv rows)) pc city = Inr ((i0, r0) # rest)"
  shows "find_nearby_postal_codes_by_distance geodesic (Some rows) pc city radius_km =
           nearby_within_distance geodesic (dropna (read_csv rows)) ((i0, r0) # rest) radius_km"
  using assms by (simp add: find_nearby_postal_codes_by_distance_def)

lemma nearby_within_distance_returns:
  "\<exists>res. nearby_within_distance geodesic df ((i0, r0) # rest) radius_km = Inr res"
  by (simp add: nearby_within_distance_def Let_def)

lemma first_reference_row_in_frame:
  assumes "reference_row_by_distance df pc city = Inr ((i0, r0) # rest)"
  shows "(i0, r0) \<in> set df"
proof -
  from assms obtain P where "filter P df = (i0, r0) # rest"
    by (auto simp: reference_row_by_distance_def split: option.splits)
  then have "(i0, r0) \<in> set (filter P df)" by simp
  then show ?thesis by simp
qed


lemma distance_result_cases:
  assumes "find_nearby_postal_codes_by_distance geodesic coordinates_file pc city radius_km = Inr res"
  obtains rows i0 r0 rest where "coordinates_file = Some rows"
    and "reference_row_by_distance (dropna (read_csv rows)) pc city = Inr ((i0, r0) # rest)"
    and "nearby_within_distance geodesic (dropna (read_csv rows)) ((i0, r0) # rest) radius_km = Inr res"
proof -
  from assms obtain rows where f: "coordinates_file = Some rows"
    by (cases coordinates_file) (simp_all add: find_nearby_postal_codes_by_distance_def)
  from assms f obtain rr where rr: "reference_row_by_distance (dropna (read_csv rows)) pc city = Inr rr"
    by (cases "reference_row_by_distance (dropna (read_csv rows)) pc city")
       (simp_all add: find_nearby_postal_codes_by_distance_def)
  from assms f rr obtain i0 r0 rest where c: "rr = (i0, r0) # rest"
    by (cases rr) (auto simp: find_nearby_postal_codes_by_distance_def)
  from assms f rr c
  have "nearby_within_distance geodesic (dropna (read_csv rows)) ((i0, r0) # rest) radius_km = Inr res"
    by (simp add: find_nearby_postal_codes_by_distance_def)
  with f rr c that show thesis by blast
qed




lemma series_drop_Inr:
  assumes "series_drop labels s = Inr res"
  shows "res = filter (\<lambda>(i, v). i \<notin> set labels) s"
  using assms by (simp add: series_drop_def Let_def split: if_splits)

lemma bounding_result_cases:
  assumes "find_nearby_postal_codes_by_bounding coordinates_file pc radius_km = Inr res"
  obtains rows i0 r0 rest sel where "coordinates_file = Some rows"
    and "reference_row_by_bounding (dropna (read_csv rows)) pc = Inr ((i0, r0) # rest)"
    and "nearby_in_bounding_box (dropna (read_csv rows)) ((i0, r0) # rest) radius_km = Inr sel"
    and "series_drop (map fst ((i0, r0) # rest)) sel = Inr res"
proof -
  from assms obtain rows where f: "coordinates_file = Some rows"
    by (cases coordinates_file) (simp_all add: find_nearby_postal_codes_by_bounding_def)
  from assms f obtain rr where rr: "reference_row_by_bounding (dropna (read_csv rows)) pc = Inr rr"
    by (cases "reference_row_by_bounding (dropna (read_csv rows)) pc")
       (simp_all add: find_nearby_postal_codes_by_bounding_def)
  from assms f rr obtain i0 r0 rest where c: "rr = (i0, r0) # rest"
    by (cases rr) (auto simp: find_nearby_postal_codes_by_bounding_def)
  from assms f rr c obtain sel where
    sel: "nearby_in_bounding_box (dropna (read_csv rows)) ((i0, r0) # rest) radius_km = Inr sel"
    by (cases "nearby_in_bounding_box (dropna (read_csv rows)) ((i0, r0) # rest) radius_km")
       (simp_all add: find_nearby_postal_codes_by_bounding_def)
  from assms f rr c sel have "series_drop (map fst ((i0, r0) # rest)) sel = Inr res"
    by (simp add: find_nearby_postal_codes_by_bounding_def)
  with f rr c sel that show thesis by blast
qed


lemma reference_rows_by_bounding:
  assumes "reference_row_by_bounding df (Some pc) = Inr rr"
  shows "(i, r) \<in> set rr \<longleftrightarrow> (i, r) \<in> set df \<and> PostalCode r = pc"
  using assms by (auto simp: reference_row_by_bounding_def)


lemma dropna_nothing_complete:
  assumes "\<forall>r \<in> set rows. Latitude r = None \<or> Longitude r = None"
  shows "dropna (read_csv rows) = []"
proof (cases "dropna (read_csv rows)")
  case Nil
  then show ?thesis .
next
  case (Cons x xs)
  obtain i r where "x = (i, r)" by (cases x)
  with Cons have "(i, r) \<in> set (dropna (read_csv rows))" by simp
  then have False
    unfolding in_dropna_read_csv using assms nth_mem by fastforce
  then show ?thesis ..
qed

lemma nearby_within_distance_nonpositive_radius:
  assumes "radius_km \<le> 0"
  shows "nearby_within_distance geodesic df ((i0, r0) # rest) radius_km = Inr []"
proof -
  have "filter (\<lambda>(i, r, d). d > 0 \<and> d < radius_km) xs = []" for xs :: "(nat \<times> real PostalCodeRecord \<times> real) list"
    using assms by (induction xs) auto
  then show ?thesis
    by (simp add: nearby_within_distance_def Let_def)
qed

lemma distance_failure_independent_of_radius:
  assumes "find_nearby_postal_codes_by_distance geodesic coordinates_file pc city R' = Inl e"
  shows "find_nearby_postal_codes_by_distance geodesic coordinates_file pc city R = Inl e"
  using assms
  by (auto simp: find_nearby_postal_codes_by_distance_def nearby_within_distance_def Let_def
      split: option.splits sum.splits list.splits if_splits)

lemma bounding_no_result_independent_of_radius:
  assumes "find_nearby_postal_codes_by_bounding coordinates_file pc R' = Inl (NoResult d)"
  shows "find_nearby_postal_codes_by_bounding coordinates_file pc R = Inl (NoResult d)"
  using assms
  by (auto simp: find_nearby_postal_codes_by_bounding_def nearby_in_bounding_box_def
        bounding_box_def series_drop_def Let_def
      split: option.splits sum.splits list.splits if_splits)

lemma reference_coordinates_in_box:
  assumes "0 \<le> radius_km" and "- 90 < lat0" and "lat0 < 90"
  shows "\<exists>b0 b1 b2 b3. bounding_box (lat0, lon0) radius_km = Inr (b0, b1, b2, b3) \<and>
           b0 \<le> lat0 \<and> lat0 \<le> b2 \<and> b1 \<le> lon0 \<and> lon0 \<le> b3"
proof -
  have "(- 90) * (pi / 180) < lat0 * (pi / 180)" "lat0 * (pi / 180) < 90 * (pi / 180)"
    using assms(2,3) pi_gt_zero by (intro mult_strict_right_mono; simp)+
  then have "- (pi / 2) < radians lat0" "radians lat0 < pi / 2"
    by (simp_all add: radians_def)
  then have "0 < cos (radians lat0)" by (rule cos_gt_zero_pi)
  then have k: "0 < 111.32 * cos (radians lat0)" by simp
  then have "0 \<le> radius_km / (111.32 * cos (radians lat0))"
    using assms(1) by (intro divide_nonneg_pos)
  moreover have "0 \<le> radius_km / 110.574" using assms(1) by simp
  ultimately show ?thesis
    using k by (simp add: bounding_box_def)
qed

text \<open>Index labels are distinct after \<^verbatim>\<open>read_csv\<close> and \<^verbatim>\<open>dropna\<close>.\<close>

lemma map_fst_dropna:
  "map fst (dropna df) =
     map fst (filter (\<lambda>(i, r). Longitude r \<noteq> None \<and> Latitude r \<noteq> None) df)"
  unfolding dropna_def by (induction df) (auto split: option.splits)

lemma distinct_labels: "distinct (map fst (dropna (read_csv rows)))"
  unfolding map_fst_dropna
  by (rule distinct_map_filter) (simp add: read_csv_def)

section \<open>Exact-distance search: the claims\<close>

text \<open>
  C1. Whenever the reference resolves (the rows matching the selector are
  \<open>(i0, r0) # rest\<close>, so \<open>r0\<close> gives the reference coordinates), the
  exact-distance search returns a series, and its entries are exactly the pairs of an
  index \<open>i\<close> and the postal code of row \<open>i\<close>, for the rows that have both
  coordinates and whose distance to the reference coordinates is strictly greater than
  \<open>0\<close> and strictly less than \<open>radius_km\<close>. So a row at distance \<open>0\<close> or at
  distance exactly \<open>radius_km\<close> is not in the result; and when the distance of a point
  to itself is \<open>0\<close>, neither the reference row nor any other row at the reference
  coordinates is in the result.
\<close>

theorem distance_search_exact:
  assumes "reference_row_by_distance (dropna (read_csv rows)) reference_postal_code reference_city
             = Inr ((i0, r0) # rest)"
  shows "\<exists>res.
     find_nearby_postal_codes_by_distance geodesic (Some rows) reference_postal_code reference_city
         radius_km = Inr res \<and>
     set res =
       {(i, PostalCode (rows ! i)) | i la lo.
          i < length rows \<and> Latitude (rows ! i) = Some la \<and> Longitude (rows ! i) = Some lo \<and>
          0 < geodesic (la, lo) (Latitude r0, Longitude r0) \<and>
          geodesic (la, lo) (Latitude r0, Longitude r0) < radius_km} \<and>
     (\<forall>i la lo.
          i < length rows \<and> Latitude (rows ! i) = Some la \<and> Longitude (rows ! i) = Some lo \<and>
          (geodesic (la, lo) (Latitude r0, Longitude r0) = 0 \<or>
           geodesic (la, lo) (Latitude r0, Longitude r0) = radius_km)
          \<longrightarrow> i \<notin> fst ` set res) \<and>
     (geodesic (Latitude r0, Longitude r0) (Latitude r0, Longitude r0) = 0 \<longrightarrow>
        i0 \<notin> fst ` set res \<and>
        (\<forall>i. i < length rows \<and> Latitude (rows ! i) = Some (Latitude r0) \<and>
              Longitude (rows ! i) = Some (Longitude r0) \<longrightarrow> i \<notin> fst ` set res))"
proof -
  let ?df = "dropna (read_csv rows)"
  let ?ref = "(Latitude r0, Longitude r0)"
  obtain res where res: "nearby_within_distance geodesic ?df ((i0, r0) # rest) radius_km = Inr res"
    using nearby_within_distance_returns by blast
  have ret: "find_nearby_postal_codes_by_distance geodesic (Some rows) reference_postal_code
               reference_city radius_km = Inr res"
    using distance_returns [OF assms] res by simp
  have set_res: "set res =
       {(i, PostalCode (rows ! i)) | i la lo.
          i < length rows \<and> Latitude (rows ! i) = Some la \<and> Longitude (rows ! i) = Some lo \<and>
          0 < geodesic (la, lo) ?ref \<and> geodesic (la, lo) ?ref < radius_km}"
    unfolding set_nearby_within_distance [OF res] in_dropna_read_csv by fastforce
  have excl: "i \<notin> fst ` set res"
    if "i < length rows" "Latitude (rows ! i) = Some la" "Longitude (rows ! i) = Some lo"
       "geodesic (la, lo) ?ref = 0 \<or> geodesic (la, lo) ?ref = radius_km" for i la lo
    using that unfolding set_res by auto
  have i0: "i0 < length rows \<and> Latitude (rows ! i0) = Some (Latitude r0) \<and>
            Longitude (rows ! i0) = Some (Longitude r0)"
    using first_reference_row_in_frame [OF assms] unfolding in_dropna_read_csv by auto
  show ?thesis
    using ret set_res excl i0 by blast
qed

theorem distance_search_exact_witness:
  "\<exists>res. find_nearby_postal_codes_by_distance equator_km (Some equator_table) (Some ''10115'') None
            55.66 = Inr res \<and>
         set res = {(2, ''20095''), (5, ''10115'')} \<and>
         0 \<notin> fst ` set res \<and> 1 \<notin> fst ` set res \<and> 3 \<notin> fst ` set res \<and> 4 \<notin> fst ` set res"
proof -
  have h: "reference_row_by_distance (dropna (read_csv equator_table)) (Some ''10115'') None =
      Inr ((0, \<lparr>PostalCode = ''10115'', City = ''Alpha'', Latitude = 0, Longitude = 0\<rparr>) #
           [(5, \<lparr>PostalCode = ''10115'', City = ''Epsilon'', Latitude = 0, Longitude = 0.125\<rparr>)])"
    by (simp add: model_defs)
  have e: "find_nearby_postal_codes_by_distance equator_km (Some equator_table) (Some ''10115'') None
             55.66 = Inr [(2, ''20095''), (5, ''10115'')]"
    by (simp add: model_defs)
  from distance_search_exact [OF h, where geodesic = equator_km and radius_km = "55.66"]
  obtain res where r: "find_nearby_postal_codes_by_distance equator_km (Some equator_table)
      (Some ''10115'') None 55.66 = Inr res"
    by (elim exE conjE)
  from r have "res = [(2, ''20095''), (5, ''10115'')]" unfolding e by (rule sum.inject(2) [THEN iffD1, symmetric])
  then show ?thesis using r by simp
qed

text \<open>
  C4. For \<open>R1 < R2\<close>, when the exact-distance search returns a series with radius
  \<open>R1\<close>, it returns one with radius \<open>R2\<close> too, and every entry of the first (so
  every postal code of the first) is in the second.
\<close>

theorem distance_search_monotone:
  assumes "R1 < R2"
    and "find_nearby_postal_codes_by_distance geodesic coordinates_file reference_postal_code
           reference_city R1 = Inr res1"
  shows "\<exists>res2.
     find_nearby_postal_codes_by_distance geodesic coordinates_file reference_postal_code
       reference_city R2 = Inr res2 \<and>
     set res1 \<subseteq> set res2 \<and> snd ` set res1 \<subseteq> snd ` set res2"
proof -
  from assms(2) obtain rows i0 r0 rest where f: "coordinates_file = Some rows"
    and rr: "reference_row_by_distance (dropna (read_csv rows)) reference_postal_code reference_city
               = Inr ((i0, r0) # rest)"
    and n1: "nearby_within_distance geodesic (dropna (read_csv rows)) ((i0, r0) # rest) R1 = Inr res1"
    by (rule distance_result_cases)
  obtain res2 where
    n2: "nearby_within_distance geodesic (dropna (read_csv rows)) ((i0, r0) # rest) R2 = Inr res2"
    using nearby_within_distance_returns by blast
  have ret: "find_nearby_postal_codes_by_distance geodesic coordinates_file reference_postal_code
          reference_city R2 = Inr res2"
    using distance_returns [OF rr] n2 f by simp
  have sub: "set res1 \<subseteq> set res2"
  proof
    fix x assume "x \<in> set res1"
    then obtain i r where x: "x = (i, PostalCode r)" and m: "(i, r) \<in> set (dropna (read_csv rows))"
      and lo: "0 < geodesic (Latitude r, Longitude r) (Latitude r0, Longitude r0)"
      and hi: "geodesic (Latitude r, Longitude r) (Latitude r0, Longitude r0) < R1"
      unfolding set_nearby_within_distance [OF n1] by blast
    from hi assms(1) have "geodesic (Latitude r, Longitude r) (Latitude r0, Longitude r0) < R2"
      by (rule less_trans)
    with x m lo show "x \<in> set res2"
      unfolding set_nearby_within_distance [OF n2] by blast
  qed
  then have "snd ` set res1 \<subseteq> snd ` set res2" by (rule image_mono)
  with ret sub show ?thesis by blast
qed


theorem distance_search_monotone_witness:
  "(27::real) < 28 \<and>
   find_nearby_postal_codes_by_distance equator_km (Some equator_table) (Some ''10115'') None 27
     = Inr [(5, ''10115'')] \<and>
   (\<exists>res2. find_nearby_postal_codes_by_distance equator_km (Some equator_table) (Some ''10115'')
             None 28 = Inr res2 \<and>
           set [(5, ''10115'')] \<subseteq> set res2 \<and> (2, ''20095'') \<in> set res2)"
proof -
  have lt: "(27::real) < 28" by simp
  have h: "find_nearby_postal_codes_by_distance equator_km (Some equator_table) (Some ''10115'') None 27
     = Inr [(5, ''10115'')]"
    by (simp add: model_defs)
  have e: "find_nearby_postal_codes_by_distance equator_km (Some equator_table) (Some ''10115'') None 28
     = Inr [(2, ''20095''), (5, ''10115'')]"
    by (simp add: model_defs)
  from distance_search_monotone [OF lt h] obtain res2 where
    r: "find_nearby_postal_codes_by_distance equator_km (Some equator_table) (Some ''10115'') None 28
          = Inr res2" and s: "set [(5, ''10115'')] \<subseteq> set res2"
    by (elim exE conjE)
  from r have "res2 = [(2, ''20095''), (5, ''10115'')]"
    unfolding e by (rule sum.inject(2) [THEN iffD1, symmetric])
  then have m: "(2, ''20095'') \<in> set res2" by simp
  show ?thesis
    by (intro conjI exI [of _ res2]) (rule lt h r s m)+
qed

text \<open>
  C7, as amended. The selectors are tried in order: when a postal code and a city are both
  given, the postal code selects the reference and the city is ignored, so the search
  does exactly what it does for the postal code alone.
\<close>

theorem postal_code_takes_precedence:
  "find_nearby_postal_codes_by_distance geodesic coordinates_file (Some reference_postal_code)
       (Some reference_city) radius_km
   = find_nearby_postal_codes_by_distance geodesic coordinates_file (Some reference_postal_code)
       None radius_km"
proof -
  have eq: "reference_row_by_distance df (Some reference_postal_code) (Some reference_city)
      = reference_row_by_distance df (Some reference_postal_code) None" for df
    by (simp add: reference_row_by_distance_def)
  show ?thesis
    unfolding find_nearby_postal_codes_by_distance_def eq ..
qed

text \<open>
  A call with both selectors returns a series: the reference is row 0, by its postal code;
  the city \<open>Gamma\<close> of row 3 plays no part.
\<close>

theorem both_selectors_counterexample:
  "find_nearby_postal_codes_by_distance equator_km (Some equator_table) (Some ''10115'')
       (Some ''Gamma'') 28
   = Inr [(2, ''20095''), (5, ''10115'')]"
  by (simp add: model_defs)

text \<open>
  C9. Whether a row is in the result is decided by its distance alone, not by its postal
  code. Let the reference postal code resolve to the rows \<open>(i0, r0) # rest\<close>, so
  that \<open>r0\<close> gives the reference coordinates, let \<open>(j, r)\<close> be a later row of
  that code, and let the distance of the reference point to itself be \<open>0\<close>. Then the
  search returns a series; \<open>j\<close> and \<open>i0\<close> are two rows with the reference
  postal code; the reference row \<open>i0\<close> is not in the series; row \<open>j\<close> is in it,
  with the reference postal code, exactly when its distance to the reference coordinates
  is strictly between \<open>0\<close> and \<open>radius_km\<close>; and the reference postal code is
  among the returned codes exactly when some later row of that code is at such a
  distance. In \<open>equator_table\<close> rows 0 and 5 carry the code \<open>10115\<close> at
  different coordinates: with radius 28 the code is returned, for row 5 and not for row 0;
  with radius 10 it is not returned.
\<close>

theorem reference_code_reappears_by_distance:
  assumes "reference_row_by_distance (dropna (read_csv rows)) (Some reference_postal_code)
             reference_city = Inr ((i0, r0) # rest)"
    and "(j, r) \<in> set rest"
    and "geodesic (Latitude r0, Longitude r0) (Latitude r0, Longitude r0) = 0"
  shows "\<exists>res.
     find_nearby_postal_codes_by_distance geodesic (Some rows) (Some reference_postal_code)
       reference_city radius_km = Inr res \<and>
     j \<noteq> i0 \<and>
     PostalCode r0 = reference_postal_code \<and> PostalCode r = reference_postal_code \<and>
     i0 \<notin> fst ` set res \<and>
     ((j, reference_postal_code) \<in> set res \<longleftrightarrow>
        0 < geodesic (Latitude r, Longitude r) (Latitude r0, Longitude r0) \<and>
        geodesic (Latitude r, Longitude r) (Latitude r0, Longitude r0) < radius_km) \<and>
     (reference_postal_code \<in> snd ` set res \<longleftrightarrow>
        (\<exists>k q. (k, q) \<in> set rest \<and>
           0 < geodesic (Latitude q, Longitude q) (Latitude r0, Longitude r0) \<and>
           geodesic (Latitude q, Longitude q) (Latitude r0, Longitude r0) < radius_km))"
proof -
  let ?df = "dropna (read_csv rows)"
  let ?d = "\<lambda>q. geodesic (Latitude q, Longitude q) (Latitude r0, Longitude r0)"
  from assms(1)
  have rr: "(i0, r0) # rest = filter (\<lambda>(i, r). PostalCode r = reference_postal_code) ?df"
    by (simp add: reference_row_by_distance_def)
  have in_rr: "(k, q) \<in> set ((i0, r0) # rest) \<longleftrightarrow>
        (k, q) \<in> set ?df \<and> PostalCode q = reference_postal_code" for k q
    unfolding rr by simp
  have m0: "(i0, r0) \<in> set ?df" and c0: "PostalCode r0 = reference_postal_code"
    using in_rr [of i0 r0] by simp_all
  have m: "(j, r) \<in> set ?df" and c: "PostalCode r = reference_postal_code"
    using in_rr [of j r] assms(2) by simp_all
  have "distinct (map fst (filter (\<lambda>(i, r). PostalCode r = reference_postal_code) ?df))"
    by (rule distinct_map_filter) (rule distinct_labels)
  then have "i0 \<notin> fst ` set rest"
    unfolding rr [symmetric] by simp
  with assms(2) have ne: "j \<noteq> i0" by force
  obtain res where res: "nearby_within_distance geodesic ?df ((i0, r0) # rest) radius_km = Inr res"
    using nearby_within_distance_returns by blast
  have ret: "find_nearby_postal_codes_by_distance geodesic (Some rows) (Some reference_postal_code)
       reference_city radius_km = Inr res"
    using distance_returns [OF assms(1)] res by simp
  have mem: "(k, code) \<in> set res \<longleftrightarrow>
       (\<exists>q. (k, q) \<in> set ?df \<and> code = PostalCode q \<and> 0 < ?d q \<and> ?d q < radius_km)" for k code
    unfolding set_nearby_within_distance [OF res] by auto
  have at: "(k, code) \<in> set res \<longleftrightarrow> code = PostalCode q \<and> 0 < ?d q \<and> ?d q < radius_km"
    if "(k, q) \<in> set ?df" for k q code
    unfolding mem using that dropna_read_csv_label_unique [OF that] by blast
  have no_i0: "i0 \<notin> fst ` set res"
  proof
    assume "i0 \<in> fst ` set res"
    then obtain code where "(i0, code) \<in> set res" by auto
    then have "0 < ?d r0" unfolding at [OF m0] by simp
    with assms(3) show False by simp
  qed
  have j_iff: "(j, reference_postal_code) \<in> set res \<longleftrightarrow> 0 < ?d r \<and> ?d r < radius_km"
    unfolding at [OF m] using c by simp
  have code_iff: "reference_postal_code \<in> snd ` set res \<longleftrightarrow>
        (\<exists>k q. (k, q) \<in> set rest \<and> 0 < ?d q \<and> ?d q < radius_km)"
  proof
    assume "reference_postal_code \<in> snd ` set res"
    then obtain k where "(k, reference_postal_code) \<in> set res" by force
    then obtain q where q: "(k, q) \<in> set ?df" "PostalCode q = reference_postal_code"
        "0 < ?d q" "?d q < radius_km"
      unfolding mem by auto
    then have "(k, q) \<in> set ((i0, r0) # rest)" unfolding in_rr by simp
    moreover have "(k, q) \<noteq> (i0, r0)" using q(3) assms(3) by auto
    ultimately have "(k, q) \<in> set rest" by auto
    with q show "\<exists>k q. (k, q) \<in> set rest \<and> 0 < ?d q \<and> ?d q < radius_km" by blast
  next
    assume "\<exists>k q. (k, q) \<in> set rest \<and> 0 < ?d q \<and> ?d q < radius_km"
    then obtain k q where q: "(k, q) \<in> set rest" "0 < ?d q" "?d q < radius_km" by blast
    then have "(k, q) \<in> set ?df" "PostalCode q = reference_postal_code"
      using in_rr [of k q] by simp_all
    with q have "(k, reference_postal_code) \<in> set res" unfolding mem by blast
    then show "reference_postal_code \<in> snd ` set res" by force
  qed
  show ?thesis
    using ret ne c0 c no_i0 j_iff code_iff by blast
qed

theorem reference_code_reappears_by_distance_witness:
  "PostalCode (equator_table ! 0) = PostalCode (equator_table ! 5) \<and>
   Longitude (equator_table ! 0) \<noteq> Longitude (equator_table ! 5) \<and>
   (\<exists>res. find_nearby_postal_codes_by_distance equator_km (Some equator_table) (Some ''10115'')
             None 28 = Inr res \<and>
          0 \<notin> fst ` set res \<and> (5, ''10115'') \<in> set res \<and> ''10115'' \<in> snd ` set res) \<and>
   (\<exists>res. find_nearby_postal_codes_by_distance equator_km (Some equator_table) (Some ''10115'')
             None 10 = Inr res \<and>
          0 \<notin> fst ` set res \<and> (5, ''10115'') \<notin> set res \<and> ''10115'' \<notin> snd ` set res)"
proof -
  let ?r0 = "\<lparr>PostalCode = ''10115'', City = ''Alpha'', Latitude = 0 :: real, Longitude = 0 :: real\<rparr>"
  let ?r5 = "\<lparr>PostalCode = ''10115'', City = ''Epsilon'', Latitude = 0 :: real,
              Longitude = 0.125 :: real\<rparr>"
  have h: "reference_row_by_distance (dropna (read_csv equator_table)) (Some ''10115'') None =
      Inr ((0, ?r0) # [(5, ?r5)])"
    by (simp add: model_defs)
  have m: "(5, ?r5) \<in> set [(5 :: nat, ?r5)]" by simp
  have z: "equator_km (Latitude ?r0, Longitude ?r0) (Latitude ?r0, Longitude ?r0) = 0"
    by (simp add: equator_km_def)
  have near: "0 < equator_km (Latitude ?r5, Longitude ?r5) (Latitude ?r0, Longitude ?r0) \<and>
      equator_km (Latitude ?r5, Longitude ?r5) (Latitude ?r0, Longitude ?r0) < 28"
    by (simp add: equator_km_def)
  have far: "\<not> (0 < equator_km (Latitude ?r5, Longitude ?r5) (Latitude ?r0, Longitude ?r0) \<and>
      equator_km (Latitude ?r5, Longitude ?r5) (Latitude ?r0, Longitude ?r0) < 10)"
    by (simp add: equator_km_def)
  have far_all: "\<not> (\<exists>k q. (k, q) \<in> set [(5 :: nat, ?r5)] \<and>
      0 < equator_km (Latitude q, Longitude q) (Latitude ?r0, Longitude ?r0) \<and>
      equator_km (Latitude q, Longitude q) (Latitude ?r0, Longitude ?r0) < 10)"
    by (simp add: equator_km_def)
  have a: "PostalCode (equator_table ! 0) = PostalCode (equator_table ! 5)"
    by (simp add: equator_table_def row_def)
  have b: "Longitude (equator_table ! 0) \<noteq> Longitude (equator_table ! 5)"
    by (simp add: equator_table_def row_def)
  from reference_code_reappears_by_distance
         [where geodesic = equator_km and radius_km = 28, OF h m z]
  obtain res where r: "find_nearby_postal_codes_by_distance equator_km (Some equator_table)
      (Some ''10115'') None 28 = Inr res"
    and n0: "0 \<notin> fst ` set res"
    and i5: "((5, ''10115'') \<in> set res) =
       (0 < equator_km (Latitude ?r5, Longitude ?r5) (Latitude ?r0, Longitude ?r0) \<and>
        equator_km (Latitude ?r5, Longitude ?r5) (Latitude ?r0, Longitude ?r0) < 28)"
    by (elim exE conjE)
  from i5 near have c: "(5, ''10115'') \<in> set res" by (rule iffD2)
  then have d: "''10115'' \<in> snd ` set res" by (rule image_eqI [rotated]) simp
  from reference_code_reappears_by_distance
         [where geodesic = equator_km and radius_km = 10, OF h m z]
  obtain res' where r': "find_nearby_postal_codes_by_distance equator_km (Some equator_table)
      (Some ''10115'') None 10 = Inr res'"
    and n0': "0 \<notin> fst ` set res'"
    and i5': "((5, ''10115'') \<in> set res') =
       (0 < equator_km (Latitude ?r5, Longitude ?r5) (Latitude ?r0, Longitude ?r0) \<and>
        equator_km (Latitude ?r5, Longitude ?r5) (Latitude ?r0, Longitude ?r0) < 10)"
    and code': "(''10115'' \<in> snd ` set res') =
       (\<exists>k q. (k, q) \<in> set [(5 :: nat, ?r5)] \<and>
          0 < equator_km (Latitude q, Longitude q) (Latitude ?r0, Longitude ?r0) \<and>
          equator_km (Latitude q, Longitude q) (Latitude ?r0, Longitude ?r0) < 10)"
    by (elim exE conjE)
  from far have c': "(5, ''10115'') \<notin> set res'" unfolding i5' .
  from far_all have d': "''10115'' \<notin> snd ` set res'" unfolding code' .
  show ?thesis
  proof (intro conjI)
    show "PostalCode (equator_table ! 0) = PostalCode (equator_table ! 5)" by (rule a)
    show "Longitude (equator_table ! 0) \<noteq> Longitude (equator_table ! 5)" by (rule b)
    show "\<exists>res. find_nearby_postal_codes_by_distance equator_km (Some equator_table)
             (Some ''10115'') None 28 = Inr res \<and>
          0 \<notin> fst ` set res \<and> (5, ''10115'') \<in> set res \<and> ''10115'' \<in> snd ` set res"
      by (intro exI [of _ res] conjI) (rule r n0 c d)+
    show "\<exists>res. find_nearby_postal_codes_by_distance equator_km (Some equator_table)
             (Some ''10115'') None 10 = Inr res \<and>
          0 \<notin> fst ` set res \<and> (5, ''10115'') \<notin> set res \<and> ''10115'' \<notin> snd ` set res"
      by (intro exI [of _ res'] conjI) (rule r' n0' c' d')+
  qed
qed

section \<open>Bounding-box search: the claims\<close>



text \<open>
  C3, as amended. The bounding-box search removes from the selection every row whose
  postal code is the reference postal code, and no other row: when it returns a series,
  the entries of the series are exactly the entries of the selection inside the box whose
  postal code differs from the reference postal code. So a row at the coordinates of the
  reference with another postal code stays, and a row with the reference postal code
  inside the box is removed.
\<close>

theorem bounding_excludes_reference_code:
  assumes "find_nearby_postal_codes_by_bounding (Some rows) (Some reference_postal_code) radius_km
             = Inr res"
  shows "\<exists>i0 r0 rest sel.
     reference_row_by_bounding (dropna (read_csv rows)) (Some reference_postal_code)
       = Inr ((i0, r0) # rest) \<and>
     nearby_in_bounding_box (dropna (read_csv rows)) ((i0, r0) # rest) radius_km = Inr sel \<and>
     (\<forall>i code. (i, code) \<in> set res \<longleftrightarrow> (i, code) \<in> set sel \<and> code \<noteq> reference_postal_code)"
proof -
  let ?df = "dropna (read_csv rows)"
  from assms obtain rows' i0 r0 rest sel where f: "Some rows = Some rows'"
    and rr: "reference_row_by_bounding (dropna (read_csv rows')) (Some reference_postal_code)
               = Inr ((i0, r0) # rest)"
    and sel: "nearby_in_bounding_box (dropna (read_csv rows')) ((i0, r0) # rest) radius_km = Inr sel"
    and drop: "series_drop (map fst ((i0, r0) # rest)) sel = Inr res"
    by (rule bounding_result_cases)
  from f have [simp]: "rows' = rows" by simp
  have res: "res = filter (\<lambda>(i, v). i \<notin> set (map fst ((i0, r0) # rest))) sel"
    using series_drop_Inr [OF drop] .
  have labels: "i \<in> set (map fst ((i0, r0) # rest)) \<longleftrightarrow>
        (\<exists>r. (i, r) \<in> set ?df \<and> PostalCode r = reference_postal_code)" for i
  proof -
    have "i \<in> set (map fst ((i0, r0) # rest)) \<longleftrightarrow> (\<exists>r. (i, r) \<in> set ((i0, r0) # rest))"
      by (force simp: image_iff)
    then show ?thesis
      using reference_rows_by_bounding [OF rr] by simp
  qed
  have "(i, code) \<in> set res \<longleftrightarrow> (i, code) \<in> set sel \<and> code \<noteq> reference_postal_code" for i code
  proof (cases "(i, code) \<in> set sel")
    case False
    then show ?thesis unfolding res by simp
  next
    case True
    then obtain r where m: "(i, r) \<in> set ?df" and c: "code = PostalCode r"
      using set_nearby_in_bounding_box [OF sel] by auto
    have "i \<in> set (map fst ((i0, r0) # rest)) \<longleftrightarrow> code = reference_postal_code"
      unfolding labels using m c dropna_read_csv_label_unique [OF m] by blast
    with True show ?thesis unfolding res by auto
  qed
  with rr sel show ?thesis by auto
qed

theorem bounding_excludes_reference_code_witness:
  "find_nearby_postal_codes_by_bounding (Some box_table) (Some ''10115'') 110.574
     = Inr [(1, ''10117''), (2, ''20095'')] \<and>
   (\<exists>sel. nearby_in_bounding_box (dropna (read_csv box_table))
           [(0, \<lparr>PostalCode = ''10115'', City = ''Alpha'', Latitude = 0, Longitude = 0\<rparr>),
            (5, \<lparr>PostalCode = ''10115'', City = ''Epsilon'', Latitude = 0.5, Longitude = 0.5\<rparr>)]
           110.574 = Inr sel \<and>
      (\<forall>i code. (i, code) \<in> set [(1, ''10117''), (2, ''20095'')] \<longleftrightarrow>
                 (i, code) \<in> set sel \<and> code \<noteq> ''10115''))"
proof -
  have e: "find_nearby_postal_codes_by_bounding (Some box_table) (Some ''10115'') 110.574
     = Inr [(1, ''10117''), (2, ''20095'')]"
    by (simp add: model_defs)
  have h: "reference_row_by_bounding (dropna (read_csv box_table)) (Some ''10115'') =
      Inr [(0, \<lparr>PostalCode = ''10115'', City = ''Alpha'', Latitude = 0, Longitude = 0\<rparr>),
           (5, \<lparr>PostalCode = ''10115'', City = ''Epsilon'', Latitude = 0.5, Longitude = 0.5\<rparr>)]"
    by (simp add: model_defs)
  from bounding_excludes_reference_code [OF e]
  obtain i0 r0 rest sel where
    rr: "reference_row_by_bounding (dropna (read_csv box_table)) (Some ''10115'')
       = Inr ((i0, r0) # rest)" and
    sel: "nearby_in_bounding_box (dropna (read_csv box_table)) ((i0, r0) # rest) 110.574 = Inr sel" and
    iff: "\<forall>i code. (i, code) \<in> set [(1, ''10117''), (2, ''20095'')] \<longleftrightarrow>
                 (i, code) \<in> set sel \<and> code \<noteq> ''10115''"
    by (elim exE conjE)
  from rr have eq: "(i0, r0) # rest =
      [(0, \<lparr>PostalCode = ''10115'', City = ''Alpha'', Latitude = 0, Longitude = 0\<rparr>),
       (5, \<lparr>PostalCode = ''10115'', City = ''Epsilon'', Latitude = 0.5, Longitude = 0.5\<rparr>)]"
    unfolding h by (rule sum.inject(2) [THEN iffD1, symmetric])
  have sel': "nearby_in_bounding_box (dropna (read_csv box_table))
           [(0, \<lparr>PostalCode = ''10115'', City = ''Alpha'', Latitude = 0, Longitude = 0\<rparr>),
            (5, \<lparr>PostalCode = ''10115'', City = ''Epsilon'', Latitude = 0.5, Longitude = 0.5\<rparr>)]
           110.574 = Inr sel"
    using sel unfolding eq .
  show ?thesis
  proof (intro conjI exI)
    show "find_nearby_postal_codes_by_bounding (Some box_table) (Some ''10115'') 110.574
       = Inr [(1, ''10117''), (2, ''20095'')]"
      by (rule e)
    show "nearby_in_bounding_box (dropna (read_csv box_table))
           [(0, \<lparr>PostalCode = ''10115'', City = ''Alpha'', Latitude = 0, Longitude = 0\<rparr>),
            (5, \<lparr>PostalCode = ''10115'', City = ''Epsilon'', Latitude = 0.5, Longitude = 0.5\<rparr>)]
           110.574 = Inr sel"
      by (rule sel')
    show "\<forall>i code. (i, code) \<in> set [(1, ''10117''), (2, ''20095'')] \<longleftrightarrow>
                 (i, code) \<in> set sel \<and> code \<noteq> ''10115''"
      by (rule iff)
  qed
qed

text \<open>
  Removal is not limited to one row: in \<open>box_table\<close>, row 5 has the reference postal code
  \<open>10115\<close> and lies inside the box around row 0, yet its code is not in the result.
\<close>

theorem bounding_same_code_counterexample:
  "nearby_in_bounding_box (dropna (read_csv box_table))
           [(0, \<lparr>PostalCode = ''10115'', City = ''Alpha'', Latitude = 0, Longitude = 0\<rparr>),
            (5, \<lparr>PostalCode = ''10115'', City = ''Epsilon'', Latitude = 0.5, Longitude = 0.5\<rparr>)]
           110.574 = Inr [(0, ''10115''), (1, ''10117''), (2, ''20095''), (5, ''10115'')] \<and>
   find_nearby_postal_codes_by_bounding (Some box_table) (Some ''10115'') 110.574
     = Inr [(1, ''10117''), (2, ''20095'')]"
  by (simp add: model_defs)

text \<open>
  C10. The coordinates of the first reference row are always inside the box when the
  radius is not negative and the latitude is strictly between \<open>-90\<close> and \<open>90\<close>
  (\<open>reference_coordinates_in_box\<close>). The other rows of the reference postal code
  need not be: in \<open>far_duplicate_table\<close> the second row of postal code \<open>10115\<close>
  lies outside the box around the first, its label is not in the selection, and
  \<^verbatim>\<open>drop\<close> raises \<^verbatim>\<open>KeyError\<close>.
\<close>

theorem far_duplicate_raises:
  "find_nearby_postal_codes_by_bounding (Some far_duplicate_table) (Some ''10115'') 50
     = Inl (Raised (KeyError [1]))"
  by (simp add: model_defs)

section \<open>Both searches: the claims\<close>

text \<open>
  C5, as amended. When no row of the table has both coordinates, no row survives
  \<^verbatim>\<open>dropna\<close>, the reference selection is empty, and both searches print "Reference
  place not found" and return nothing (\<open>ReferenceNotFound\<close>); without a selector they
  print "No reference place was provided" (\<open>MissingReference\<close>). There is no
  condition of its own for a table without coordinates.
\<close>

theorem no_geocoded_rows:
  assumes "\<forall>r \<in> set rows. Latitude r = None \<or> Longitude r = None"
  shows "find_nearby_postal_codes_by_distance geodesic (Some rows) reference_postal_code
           reference_city radius_km
         = Inl (NoResult (if reference_postal_code = None \<and> reference_city = None
                          then MissingReference else ReferenceNotFound)) \<and>
         find_nearby_postal_codes_by_bounding (Some rows) reference_postal_code radius_km
         = Inl (NoResult (if reference_postal_code = None
                          then MissingReference else ReferenceNotFound))"
  using dropna_nothing_complete [OF assms]
  by (simp add: find_nearby_postal_codes_by_distance_def find_nearby_postal_codes_by_bounding_def
        reference_row_by_distance_def reference_row_by_bounding_def split: option.splits)

theorem no_geocoded_rows_witness:
  "find_nearby_postal_codes_by_distance equator_km (Some ungeocoded_table) None (Some ''Beta'') 50
     = Inl (NoResult ReferenceNotFound) \<and>
   find_nearby_postal_codes_by_bounding (Some ungeocoded_table) (Some ''20095'') 50
     = Inl (NoResult ReferenceNotFound)"
proof -
  have h: "\<forall>r \<in> set ungeocoded_table. Latitude r = None \<or> Longitude r = None"
    by (simp add: ungeocoded_table_def row_def)
  have n: "((None :: string option) = None \<and> Some ''Beta'' = None) = False"
          "(Some ''20095'' = None) = False"
    by simp_all
  from no_geocoded_rows [OF h, where geodesic = equator_km and reference_postal_code = None
      and reference_city = "Some ''Beta''" and radius_km = 50]
  have a: "find_nearby_postal_codes_by_distance equator_km (Some ungeocoded_table) None (Some ''Beta'') 50
     = Inl (NoResult ReferenceNotFound)"
    unfolding n if_False by (rule conjunct1)
  from no_geocoded_rows [OF h, where geodesic = equator_km
      and reference_postal_code = "Some ''20095''" and reference_city = None and radius_km = 50]
  have b: "find_nearby_postal_codes_by_bounding (Some ungeocoded_table) (Some ''20095'') 50
     = Inl (NoResult ReferenceNotFound)"
    unfolding n if_False by (rule conjunct2)
  from a b show ?thesis by (rule conjI)
qed

text \<open>
  On a table without a complete row, a search for a postal code of the table ends with
  \<open>ReferenceNotFound\<close>.
\<close>

theorem no_geocoded_rows_counterexample:
  "find_nearby_postal_codes_by_distance equator_km (Some ungeocoded_table) (Some ''10115'') None 50
     = Inl (NoResult ReferenceNotFound) \<and>
   find_nearby_postal_codes_by_bounding (Some ungeocoded_table) (Some ''10115'') 50
     = Inl (NoResult ReferenceNotFound)"
  by (simp add: model_defs)

text \<open>
  C6, as amended. The radius is never validated. With \<open>radius_km \<le> 0\<close> the
  exact-distance search returns the empty series whenever it returns a series for another
  radius \<open>R'\<close> (that is, whenever the file exists and the reference resolves), and
  fails exactly as it does for \<open>R'\<close> otherwise; and the bounding-box search prints a
  message and returns nothing for \<open>radius_km\<close> exactly when it does so for \<open>R'\<close>,
  with the same message.
\<close>

theorem radius_not_validated:
  assumes "radius_km \<le> 0"
  shows "(\<forall>res. find_nearby_postal_codes_by_distance geodesic coordinates_file reference_postal_code
                reference_city R' = Inr res \<longrightarrow>
              find_nearby_postal_codes_by_distance geodesic coordinates_file reference_postal_code
                reference_city radius_km = Inr []) \<and>
         (\<forall>e. find_nearby_postal_codes_by_distance geodesic coordinates_file reference_postal_code
                reference_city R' = Inl e \<longrightarrow>
              find_nearby_postal_codes_by_distance geodesic coordinates_file reference_postal_code
                reference_city radius_km = Inl e) \<and>
         (\<forall>d. find_nearby_postal_codes_by_bounding coordinates_file reference_postal_code radius_km
                = Inl (NoResult d) \<longleftrightarrow>
              find_nearby_postal_codes_by_bounding coordinates_file reference_postal_code R'
                = Inl (NoResult d))"
proof (intro conjI allI impI)
  fix res
  assume "find_nearby_postal_codes_by_distance geodesic coordinates_file reference_postal_code
            reference_city R' = Inr res"
  then obtain rows i0 r0 rest where f: "coordinates_file = Some rows"
    and rr: "reference_row_by_distance (dropna (read_csv rows)) reference_postal_code reference_city
               = Inr ((i0, r0) # rest)"
    by (rule distance_result_cases)
  show "find_nearby_postal_codes_by_distance geodesic coordinates_file reference_postal_code
          reference_city radius_km = Inr []"
    unfolding f distance_returns [OF rr]
    by (rule nearby_within_distance_nonpositive_radius [OF assms])
next
  fix e
  assume "find_nearby_postal_codes_by_distance geodesic coordinates_file reference_postal_code
            reference_city R' = Inl e"
  then show "find_nearby_postal_codes_by_distance geodesic coordinates_file reference_postal_code
          reference_city radius_km = Inl e"
    by (rule distance_failure_independent_of_radius)
next
  fix d
  show "find_nearby_postal_codes_by_bounding coordinates_file reference_postal_code radius_km
          = Inl (NoResult d) \<longleftrightarrow>
        find_nearby_postal_codes_by_bounding coordinates_file reference_postal_code R'
          = Inl (NoResult d)"
    using bounding_no_result_independent_of_radius by blast
qed

theorem radius_not_validated_witness:
  "(- 5 :: real) \<le> 0 \<and>
   find_nearby_postal_codes_by_distance equator_km (Some equator_table) (Some ''10115'') None 28
     = Inr [(2, ''20095''), (5, ''10115'')] \<and>
   find_nearby_postal_codes_by_distance equator_km (Some equator_table) (Some ''10115'') None (- 5)
     = Inr [] \<and>
   find_nearby_postal_codes_by_bounding (Some equator_table) None 50
     = Inl (NoResult MissingReference) \<and>
   find_nearby_postal_codes_by_bounding (Some equator_table) None (- 5)
     = Inl (NoResult MissingReference)"
proof -
  have le: "(- 5 :: real) \<le> 0" by simp
  have h: "find_nearby_postal_codes_by_distance equator_km (Some equator_table) (Some ''10115'') None 28
     = Inr [(2, ''20095''), (5, ''10115'')]"
    by (simp add: model_defs)
  have b: "find_nearby_postal_codes_by_bounding (Some equator_table) None 50
     = Inl (NoResult MissingReference)"
    by (simp add: model_defs)
  note t = radius_not_validated [OF le, where geodesic = equator_km
      and coordinates_file = "Some equator_table" and reference_postal_code = "Some ''10115''"
      and reference_city = None and R' = 28]
  note u = radius_not_validated [OF le, where geodesic = equator_km
      and coordinates_file = "Some equator_table" and reference_postal_code = None
      and reference_city = None and R' = 50]
  from t have "\<forall>res. find_nearby_postal_codes_by_distance equator_km (Some equator_table)
       (Some ''10115'') None 28 = Inr res \<longrightarrow>
     find_nearby_postal_codes_by_distance equator_km (Some equator_table) (Some ''10115'') None (- 5)
       = Inr []"
    by (rule conjunct1)
  from this [rule_format, OF h]
  have d: "find_nearby_postal_codes_by_distance equator_km (Some equator_table) (Some ''10115'')
      None (- 5) = Inr []" .
  from u have "\<forall>d. find_nearby_postal_codes_by_bounding (Some equator_table) None (- 5)
                = Inl (NoResult d) \<longleftrightarrow>
              find_nearby_postal_codes_by_bounding (Some equator_table) None 50
                = Inl (NoResult d)"
    by (elim conjE)
  then have "find_nearby_postal_codes_by_bounding (Some equator_table) None (- 5)
                = Inl (NoResult MissingReference) \<longleftrightarrow>
              find_nearby_postal_codes_by_bounding (Some equator_table) None 50
                = Inl (NoResult MissingReference)"
    by (rule spec)
  then have c: "find_nearby_postal_codes_by_bounding (Some equator_table) None (- 5)
                = Inl (NoResult MissingReference)"
    using b by (rule iffD2)
  show ?thesis
    by (intro conjI) (rule le h d b c)+
qed

text \<open>
  With radius \<open>0\<close> and with radius \<open>-5\<close> the exact-distance search returns a
  series, the empty one, and prints nothing.
\<close>

theorem radius_not_validated_counterexample:
  "find_nearby_postal_codes_by_distance equator_km (Some equator_table) (Some ''10115'') None 0
     = Inr [] \<and>
   find_nearby_postal_codes_by_distance equator_km (Some equator_table) (Some ''10115'') None (- 5)
     = Inr []"
  by (simp add: model_defs)

text \<open>
  C8. Every entry of a series returned by either search is the index and the postal code
  of a row of the table that has both its latitude and its longitude; a row that misses
  one of them is never in a result.
\<close>

theorem missing_coordinates_never_returned:
  assumes "find_nearby_postal_codes_by_distance geodesic (Some rows) reference_postal_code
             reference_city radius_km = Inr res \<or>
           find_nearby_postal_codes_by_bounding (Some rows) reference_postal_code radius_km
             = Inr res"
    and "(i, code) \<in> set res"
  shows "i < length rows \<and> code = PostalCode (rows ! i) \<and>
         Latitude (rows ! i) \<noteq> None \<and> Longitude (rows ! i) \<noteq> None"
proof -
  have "\<exists>r. (i, r) \<in> set (dropna (read_csv rows)) \<and> code = PostalCode r"
    using assms(1)
  proof
    assume "find_nearby_postal_codes_by_distance geodesic (Some rows) reference_postal_code
             reference_city radius_km = Inr res"
    then obtain rows' i0 r0 rest where "Some rows = Some rows'"
      and "nearby_within_distance geodesic (dropna (read_csv rows')) ((i0, r0) # rest) radius_km
             = Inr res"
      by (rule distance_result_cases)
    then have "nearby_within_distance geodesic (dropna (read_csv rows)) ((i0, r0) # rest) radius_km
             = Inr res"
      by simp
    from set_nearby_within_distance [OF this] assms(2) show ?thesis by auto
  next
    assume "find_nearby_postal_codes_by_bounding (Some rows) reference_postal_code radius_km
             = Inr res"
    then obtain rows' i0 r0 rest sel where "Some rows = Some rows'"
      and "nearby_in_bounding_box (dropna (read_csv rows')) ((i0, r0) # rest) radius_km = Inr sel"
      and drop: "series_drop (map fst ((i0, r0) # rest)) sel = Inr res"
      by (rule bounding_result_cases)
    then have sel: "nearby_in_bounding_box (dropna (read_csv rows)) ((i0, r0) # rest) radius_km
        = Inr sel"
      by simp
    from assms(2) have "(i, code) \<in> set sel"
      unfolding series_drop_Inr [OF drop] by simp
    with set_nearby_in_bounding_box [OF sel] show ?thesis by auto
  qed
  then show ?thesis
    unfolding in_dropna_read_csv by auto
qed

theorem missing_coordinates_never_returned_witness:
  "(5, ''10115'') \<in> set [(2, ''20095''), (5 :: nat, ''10115'')] \<and>
   5 < length equator_table \<and> ''10115'' = PostalCode (equator_table ! 5) \<and>
   Latitude (equator_table ! 5) \<noteq> None \<and> Longitude (equator_table ! 5) \<noteq> None \<and>
   Latitude (equator_table ! 4) = None"
proof -
  have h: "find_nearby_postal_codes_by_distance equator_km (Some equator_table) (Some ''10115'')
             None 28 = Inr [(2, ''20095''), (5, ''10115'')]"
    by (simp add: model_defs)
  have m: "(5, ''10115'') \<in> set [(2, ''20095''), (5 :: nat, ''10115'')]"
    by simp
  have n: "Latitude (equator_table ! 4) = None"
    by (simp add: equator_table_def row_def)
  from missing_coordinates_never_returned [OF disjI1, OF h m] m n
  show ?thesis by (intro conjI) (elim conjE, assumption)+
qed

end
